theory Spec2Isabelle
  imports Complex_Main
begin

section \<open>Data model\<close>

text \<open>
  Coordinates are GeoJSON positions \<open>[lng, lat]\<close>. JavaScript numbers are modelled as
  reals: no property below depends on rounding. Feature ids are the opaque strings the
  store hands out; they are modelled as the numbers of a counter.
\<close>

type_synonym position = "real \<times> real"

type_synonym fid = nat

datatype geometry =
    Point position
  | LineString "position list"
  | Polygon "position list"   \<comment> \<open>the outer ring; holes are not part of the core\<close>

datatype pvalue = PString string | PBool bool | PNumber nat | PId fid

type_synonym properties = "string \<rightharpoonup> pvalue"

record feature =
  geometry :: geometry
  properties :: properties

datatype error =
    NotRegistered | AlreadyRegistered | IllegalStateWrite
  | InvalidGeometry | UnknownId | InvalidStyles
  | TypeError   \<comment> \<open>JavaScript's own error on a member access of \<open>undefined\<close>\<close>

text \<open>Sequencing of calls that may throw: the first error ends the handler.\<close>

definition andThen :: "error + 'a \<Rightarrow> ('a \<Rightarrow> error + 'b) \<Rightarrow> error + 'b" where
  "andThen r f = (case r of Inl e \<Rightarrow> Inl e | Inr x \<Rightarrow> f x)"

datatype change_kind = Create | Update | Delete

text \<open>The callbacks a mode and its store fire, in the order they fire.\<close>

datatype callback =
    OnChange "fid list" change_kind
  | OnSelect fid
  | OnDeselect fid
  | OnFinish fid
  | SetCursor string

datatype button = LeftButton | RightButton | MiddleButton

record mouse_event =
  lng :: real
  lat :: real
  containerX :: real
  containerY :: real
  button :: button
  heldKeys :: "string list"

section \<open>Geometry validity (spec section 3)\<close>

text \<open>
  Modelled from the spec: \<open>selfIntersects\<close> of the geometry kernel (\<open>geometry/*\<close> is
  not among the sources), the segment-pair check: two edges intersect when they cross
  strictly; edges that only share an endpoint do not.
\<close>

definition orient :: "position \<Rightarrow> position \<Rightarrow> position \<Rightarrow> real" where
  "orient a b c = (fst b - fst a) * (snd c - snd a) - (snd b - snd a) * (fst c - fst a)"

definition strictlyCross :: "position \<times> position \<Rightarrow> position \<times> position \<Rightarrow> bool" where
  "strictlyCross s t =
     (orient (fst s) (snd s) (fst t) * orient (fst s) (snd s) (snd t) < 0 \<and>
      orient (fst t) (snd t) (fst s) * orient (fst t) (snd t) (snd s) < 0)"

definition segments :: "position list \<Rightarrow> (position \<times> position) list" where
  "segments ring = zip ring (tl ring)"

fun anyCrossing :: "(position \<times> position) list \<Rightarrow> bool" where
  "anyCrossing [] = False"
| "anyCrossing (s # ss) = (list_ex (strictlyCross s) ss \<or> anyCrossing ss)"

definition selfIntersects :: "position list \<Rightarrow> bool" where
  "selfIntersects ring = anyCrossing (segments ring)"

fun consecutiveDuplicates :: "position list \<Rightarrow> bool" where
  "consecutiveDuplicates (a # b # cs) = (a = b \<or> consecutiveDuplicates (b # cs))"
| "consecutiveDuplicates _ = False"

text \<open>
  Modelled from the spec: the validation of the store (\<open>store/store\<close> is not among
  the sources), invariants 2 to 4 of the data model. A polygon's outer ring is closed,
  has at least four coordinates, at least three distinct vertices, and does not
  intersect itself; a line string has at least two coordinates and no consecutive
  duplicates.
\<close>

fun validGeometry :: "geometry \<Rightarrow> bool" where
  "validGeometry (Point p) = True"
| "validGeometry (LineString cs) = (2 \<le> length cs \<and> \<not> consecutiveDuplicates cs)"
| "validGeometry (Polygon ring) =
     (4 \<le> length ring \<and> hd ring = last ring \<and> 3 \<le> length (remdups (butlast ring)) \<and>
      \<not> selfIntersects ring)"

section \<open>Feature store (spec section 4.B)\<close>

text \<open>
  Modelled from the spec: \<open>GeoJSONStore\<close> and the configuration a mode is registered
  with (\<open>store/store\<close>, \<open>test/mock-config\<close> are not among the sources). The record
  holds what \<open>register(config)\<close> hands to a mode: the store (its features in insertion
  order and the counter its ids come from), the projection to pixels, and the calls the
  callbacks of the configuration have received so far (the tests' \<open>jest.fn()\<close> mocks).
\<close>

record config =
  features :: "(fid \<times> feature) list"
  nextId :: nat
  calls :: "callback list"
  project :: "position \<Rightarrow> real \<times> real"

text \<open>
  Modelled from the spec: the store's readers \<open>has\<close>, \<open>copyAll\<close>, \<open>getGeometryCopy\<close>
  and \<open>getPropertiesCopy\<close>. Values are immutable here, so a copy is the value.
\<close>

definition has :: "config \<Rightarrow> fid \<Rightarrow> bool" where
  "has cfg i = (i \<in> set (map fst (features cfg)))"

definition copyAll :: "config \<Rightarrow> (fid \<times> feature) list" where
  "copyAll cfg = features cfg"

definition getGeometryCopy :: "config \<Rightarrow> fid \<Rightarrow> geometry option" where
  "getGeometryCopy cfg i = map_option geometry (map_of (features cfg) i)"

definition getPropertiesCopy :: "config \<Rightarrow> fid \<Rightarrow> properties option" where
  "getPropertiesCopy cfg i = map_option properties (map_of (features cfg) i)"

text \<open>
  Modelled from the spec: the delivery of a callback (\<open>onChange\<close> by the store,
  \<open>onSelect\<close>, \<open>onDeselect\<close> and \<open>setCursor\<close> by a mode). Every store mutation that
  succeeds delivers one \<open>onChange\<close>.
\<close>

definition emit :: "callback \<Rightarrow> config \<Rightarrow> config" where
  "emit c cfg = cfg\<lparr>calls := calls cfg @ [c]\<rparr>"

text \<open>
  Modelled from the spec: \<open>create(entries) \<rightarrow> ids\<close> of the store. Fresh ids,
  validation (\<open>InvalidGeometry\<close>), one \<open>{created}\<close> batch.
\<close>

definition store_create :: "feature list \<Rightarrow> config \<Rightarrow> error + (fid list \<times> config)" where
  "store_create entries cfg =
     (if list_all (\<lambda>e. validGeometry (geometry e)) entries
      then (let ids = [nextId cfg ..< nextId cfg + length entries]
            in Inr (ids, emit (OnChange ids Create)
                          (cfg\<lparr>features := features cfg @ zip ids entries,
                               nextId := nextId cfg + length entries\<rparr>)))
      else Inl InvalidGeometry)"

text \<open>
  Modelled from the spec: \<open>updateGeometry(updates)\<close> of the store. It replaces the
  geometry of the given ids, re-validates, and delivers one \<open>{updated}\<close> batch. An id
  the store does not hold is refused as in \<open>delete\<close>.
\<close>

fun setGeometry :: "fid \<times> geometry \<Rightarrow> (fid \<times> feature) list \<Rightarrow> (fid \<times> feature) list" where
  "setGeometry (i, g) fs = map (\<lambda>(j, f). if j = i then (j, f\<lparr>geometry := g\<rparr>) else (j, f)) fs"

definition store_updateGeometry :: "(fid \<times> geometry) list \<Rightarrow> config \<Rightarrow> error + config" where
  "store_updateGeometry ups cfg =
     (if \<not> list_all (\<lambda>u. has cfg (fst u)) ups then Inl UnknownId
      else if \<not> list_all (\<lambda>u. validGeometry (snd u)) ups then Inl InvalidGeometry
      else Inr (emit (OnChange (map fst ups) Update)
                  (cfg\<lparr>features := foldl (\<lambda>fs u. setGeometry u fs) (features cfg) ups\<rparr>)))"

text \<open>
  Modelled from the spec: \<open>updateProperty(updates)\<close> of the store. It merges the
  properties (\<open>UnknownId\<close> for an id the store does not hold), one \<open>{updated}\<close> batch.
\<close>

definition withProperty :: "string \<Rightarrow> pvalue \<Rightarrow> feature \<Rightarrow> feature" where
  "withProperty k v f = f\<lparr>properties := (properties f)(k \<mapsto> v)\<rparr>"

fun setProperty :: "fid \<times> string \<times> pvalue \<Rightarrow> (fid \<times> feature) list \<Rightarrow> (fid \<times> feature) list" where
  "setProperty (i, k, v) fs =
     map (\<lambda>(j, f). if j = i then (j, withProperty k v f) else (j, f)) fs"

definition store_updateProperty :: "(fid \<times> string \<times> pvalue) list \<Rightarrow> config \<Rightarrow> error + config" where
  "store_updateProperty ups cfg =
     (if \<not> list_all (\<lambda>u. has cfg (fst u)) ups then Inl UnknownId
      else Inr (emit (OnChange (map fst ups) Update)
                  (cfg\<lparr>features := foldl (\<lambda>fs u. setProperty u fs) (features cfg) ups\<rparr>)))"

text \<open>
  Modelled from the spec: \<open>delete(ids)\<close> of the store. It fails with \<open>UnknownId\<close> if
  any id is missing, and delivers one \<open>{deleted}\<close> batch.
\<close>

definition store_delete :: "fid list \<Rightarrow> config \<Rightarrow> error + config" where
  "store_delete ids cfg =
     (if \<not> list_all (has cfg) ids then Inl UnknownId
      else Inr (emit (OnChange ids Delete)
                  (cfg\<lparr>features := filter (\<lambda>(j, f). j \<notin> set ids) (features cfg)\<rparr>)))"

section \<open>Mode base (spec section 4.C)\<close>

text \<open>
  Modelled from the spec: the fields of \<open>TerraDrawBaseDrawMode\<close> (\<open>modes/base.mode\<close>
  is not among the sources). \<open>state\<close> is the read-only lifecycle state; \<open>config\<close> is
  \<open>None\<close> until \<open>register\<close>, which is when \<open>this.store\<close> of the modes is
  \<open>undefined\<close>.
\<close>

datatype mode_state = Unregistered | Registered | Started | Stopped

record mode_base =
  state :: mode_state
  config :: "config option"

text \<open>
  Modelled from the spec: the operations of the mode base. \<open>register\<close> is single-use
  (\<open>AlreadyRegistered\<close>); \<open>setStarted\<close> and \<open>setStopped\<close>, which \<open>start()\<close> and \<open>stop()\<close> of the modes call,
  require a prior \<open>register\<close> (\<open>NotRegistered\<close>); \<open>setCursor\<close> is the hook of the
  registered configuration.
\<close>

definition register :: "config \<Rightarrow> 'a mode_base_scheme \<Rightarrow> error + 'a mode_base_scheme" where
  "register cfg m =
     (if state m = Unregistered then Inr (m\<lparr>state := Registered, config := Some cfg\<rparr>)
      else Inl AlreadyRegistered)"

definition setStarted :: "'a mode_base_scheme \<Rightarrow> error + 'a mode_base_scheme" where
  "setStarted m =
     (if state m = Unregistered then Inl NotRegistered else Inr (m\<lparr>state := Started\<rparr>))"

definition setStopped :: "'a mode_base_scheme \<Rightarrow> error + 'a mode_base_scheme" where
  "setStopped m =
     (if state m = Unregistered then Inl NotRegistered else Inr (m\<lparr>state := Stopped\<rparr>))"

definition setCursor :: "string \<Rightarrow> 'a mode_base_scheme \<Rightarrow> error + 'a mode_base_scheme" where
  "setCursor c m =
     (case config m of
        None \<Rightarrow> Inl TypeError
      | Some cfg \<Rightarrow> Inr (m\<lparr>config := Some (emit (SetCursor c) cfg)\<rparr>))"

section \<open>Circle mode (\<open>src/modes/circle.mode.ts\<close>)\<close>

text \<open>
  \<open>circle\<close> and \<open>haversineDistanceKilometers\<close> are imported from the geometry kernel,
  which is not among the sources: the handlers take them as parameters \<open>circ\<close> (centre
  and radius in kilometres to the polygon geometry) and \<open>hav\<close>.
\<close>

record circle_mode = mode_base +
  center :: "position option"
  clickCount :: nat
  currentCircleId :: "fid option"
  keyEvents_cancel :: string

definition new_circle_mode :: "string option \<Rightarrow> circle_mode" where
  "new_circle_mode keyEvents =
     \<lparr>state = Unregistered, config = None,
      center = None, clickCount = 0, currentCircleId = None,
      keyEvents_cancel = (case keyEvents of Some k \<Rightarrow> k | None \<Rightarrow> ''Escape'')\<rparr>"

definition circle_start :: "circle_mode \<Rightarrow> error + circle_mode" where
  "circle_start m =
     (case setStarted m of Inl e \<Rightarrow> Inl e | Inr m1 \<Rightarrow> setCursor ''crosshair'' m1)"

text \<open>
  \<open>onClick\<close>: the first click records the centre and creates the draft with radius
  0.00001 km; any later click only resets the three fields. \<open>this.store.create\<close> on an
  unregistered mode is a member access of \<open>undefined\<close>.
\<close>

definition circle_onClick ::
  "(position \<Rightarrow> real \<Rightarrow> geometry) \<Rightarrow> mouse_event \<Rightarrow> circle_mode \<Rightarrow> error + circle_mode" where
  "circle_onClick circ event m =
     (if clickCount m = 0 then
        (let c = (lng event, lat event);
             startingCircle = circ c (1 / 100000)
         in case config m of
              None \<Rightarrow> Inl TypeError
            | Some cfg \<Rightarrow>
                (case store_create
                        [\<lparr>geometry = startingCircle,
                          properties = [''mode'' \<mapsto> PString ''circle'']\<rparr>] cfg of
                   Inl e \<Rightarrow> Inl e
                 | Inr (ids, cfg') \<Rightarrow>
                     Inr (m\<lparr>config := Some cfg', center := Some c,
                            currentCircleId := (case ids of [] \<Rightarrow> None | createdId # _ \<Rightarrow> Some createdId),
                            clickCount := clickCount m + 1\<rparr>)))
      else Inr (m\<lparr>center := None, currentCircleId := None, clickCount := 0\<rparr>))"

text \<open>
  \<open>onMouseMove\<close>: with exactly one click so far, one \<open>updateGeometry\<close> of the draft to
  the circle through the cursor. The kernel reads the coordinates of \<open>this.center\<close>, and
  the store is asked for \<open>this.currentCircleId\<close>; \<open>undefined\<close> is never an id it holds.
\<close>

definition circle_onMouseMove ::
  "(position \<Rightarrow> real \<Rightarrow> geometry) \<Rightarrow> (position \<Rightarrow> position \<Rightarrow> real) \<Rightarrow>
   mouse_event \<Rightarrow> circle_mode \<Rightarrow> error + circle_mode" where
  "circle_onMouseMove circ hav event m =
     (if clickCount m = 1 then
        (case center m of
           None \<Rightarrow> Inl TypeError
         | Some c \<Rightarrow>
             (let distanceKm = hav c (lng event, lat event);
                  updatedCircle = circ c distanceKm
              in case config m of
                   None \<Rightarrow> Inl TypeError
                 | Some cfg \<Rightarrow>
                     (case currentCircleId m of
                        None \<Rightarrow> Inl UnknownId
                      | Some i \<Rightarrow>
                          (case store_updateGeometry [(i, updatedCircle)] cfg of
                             Inl e \<Rightarrow> Inl e
                           | Inr cfg' \<Rightarrow> Inr (m\<lparr>config := Some cfg'\<rparr>)))))
      else Inr m)"

text \<open>
  \<open>cleanUp\<close>: \<open>try { this.store.delete([this.currentCircleId]) } catch (error) {}\<close>, then
  the three fields are reset. \<open>tryDelete\<close> is the body of the \<open>try\<close>.
\<close>

definition tryDelete :: "circle_mode \<Rightarrow> error + circle_mode" where
  "tryDelete m =
     (case config m of
        None \<Rightarrow> Inl TypeError
      | Some cfg \<Rightarrow>
          (case currentCircleId m of
             None \<Rightarrow> Inl UnknownId
           | Some i \<Rightarrow>
               (case store_delete [i] cfg of
                  Inl e \<Rightarrow> Inl e
                | Inr cfg' \<Rightarrow> Inr (m\<lparr>config := Some cfg'\<rparr>))))"

definition circle_cleanUp :: "circle_mode \<Rightarrow> error + circle_mode" where
  "circle_cleanUp m =
     (let m1 = (case tryDelete m of Inl e \<Rightarrow> m | Inr m' \<Rightarrow> m')
      in Inr (m1\<lparr>center := None, currentCircleId := None, clickCount := 0\<rparr>))"

definition circle_stop :: "circle_mode \<Rightarrow> error + circle_mode" where
  "circle_stop m =
     (case setStopped m of
        Inl e \<Rightarrow> Inl e
      | Inr m1 \<Rightarrow> (case setCursor ''unset'' m1 of Inl e \<Rightarrow> Inl e | Inr m2 \<Rightarrow> circle_cleanUp m2))"

definition circle_onKeyPress :: "string \<Rightarrow> circle_mode \<Rightarrow> error + circle_mode" where
  "circle_onKeyPress key m = (if key = keyEvents_cancel m then circle_cleanUp m else Inr m)"

definition circle_onDragStart :: "circle_mode \<Rightarrow> error + circle_mode" where
  "circle_onDragStart m = Inr m"

definition circle_onDrag :: "circle_mode \<Rightarrow> error + circle_mode" where
  "circle_onDrag m = Inr m"

definition circle_onDragEnd :: "circle_mode \<Rightarrow> error + circle_mode" where
  "circle_onDragEnd m = Inr m"

section \<open>Point mode (\<open>src/modes/point/point.mode.ts\<close>)\<close>

record point_mode = mode_base +
  point_styles :: "string \<rightharpoonup> pvalue"

definition new_point_mode :: "(string \<rightharpoonup> pvalue) option \<Rightarrow> point_mode" where
  "new_point_mode styles =
     \<lparr>state = Unregistered, config = None,
      point_styles = (case styles of Some s \<Rightarrow> s | None \<Rightarrow> Map.empty)\<rparr>"

definition point_cleanUp :: "point_mode \<Rightarrow> error + point_mode" where
  "point_cleanUp m = Inr m"

definition point_start :: "point_mode \<Rightarrow> error + point_mode" where
  "point_start m =
     (case setStarted m of Inl e \<Rightarrow> Inl e | Inr m1 \<Rightarrow> setCursor ''crosshair'' m1)"

definition point_stop :: "point_mode \<Rightarrow> error + point_mode" where
  "point_stop m =
     (case setStopped m of
        Inl e \<Rightarrow> Inl e
      | Inr m1 \<Rightarrow> (case setCursor ''unset'' m1 of Inl e \<Rightarrow> Inl e | Inr m2 \<Rightarrow> point_cleanUp m2))"

definition point_onClick :: "mouse_event \<Rightarrow> point_mode \<Rightarrow> error + point_mode" where
  "point_onClick event m =
     (case config m of
        None \<Rightarrow> Inl NotRegistered
      | Some cfg \<Rightarrow>
          (case store_create
                  [\<lparr>geometry = Point (lng event, lat event),
                    properties = [''mode'' \<mapsto> PString ''point'']\<rparr>] cfg of
             Inl e \<Rightarrow> Inl e
           | Inr (ids, cfg') \<Rightarrow> Inr (m\<lparr>config := Some cfg'\<rparr>)))"

text \<open>The handlers with an empty body: they return, whatever the mode's state.\<close>

definition point_onMouseMove :: "point_mode \<Rightarrow> error + point_mode" where
  "point_onMouseMove m = Inr m"

definition point_onKeyDown :: "point_mode \<Rightarrow> error + point_mode" where
  "point_onKeyDown m = Inr m"

definition point_onKeyUp :: "point_mode \<Rightarrow> error + point_mode" where
  "point_onKeyUp m = Inr m"

definition point_onDragStart :: "point_mode \<Rightarrow> error + point_mode" where
  "point_onDragStart m = Inr m"

definition point_onDrag :: "point_mode \<Rightarrow> error + point_mode" where
  "point_onDrag m = Inr m"

definition point_onDragEnd :: "point_mode \<Rightarrow> error + point_mode" where
  "point_onDragEnd m = Inr m"

section \<open>Select mode (spec section 4.E)\<close>

text \<open>
  \<open>TerraDrawSelectMode\<close> (\<open>modes/select/select.mode\<close>) is not among the sources; only
  its test is. Everything in this section is modelled from section 4.E of the spec, and
  from the test where it shows more than the spec says (the cursor set on selection).
\<close>

text \<open>
  Modelled from the spec: the flags, the options and the state of the select mode. Of
  the six top-level states the two that clicks move between are modelled: Idle
  (\<open>selected = None\<close>) and Selected (\<open>selected = Some id\<close>), with the overlay ids of
  the selection.
\<close>

datatype resize = ResizeCenter | ResizeOpposite

record coordinate_flags =
  coordinates_draggable :: bool
  deletable :: bool
  midpoints :: bool
  resizable :: "resize option"
  rotatable :: bool

record feature_flags =
  draggable :: bool
  coordinates :: "coordinate_flags option"

record mode_flags =
  flag_feature :: "feature_flags option"

record select_mode = mode_base +
  flags :: "string \<rightharpoonup> mode_flags"
  pointerDistance :: real
  allowManualDeselection :: bool
  selected :: "fid option"
  selectionPoints :: "fid list"
  midPoints :: "fid list"

record select_options =
  opt_flags :: "(string \<rightharpoonup> mode_flags) option"
  opt_pointerDistance :: "real option"
  opt_allowManualDeselection :: "bool option"

text \<open>
  Modelled from the spec: the constructor. \<open>pointerDistance\<close> defaults to 40 px,
  \<open>allowManualDeselection\<close> to true.
\<close>

definition new_select_mode :: "select_options \<Rightarrow> select_mode" where
  "new_select_mode opts =
     \<lparr>state = Unregistered, config = None,
      flags = (case opt_flags opts of Some f \<Rightarrow> f | None \<Rightarrow> Map.empty),
      pointerDistance = (case opt_pointerDistance opts of Some d \<Rightarrow> d | None \<Rightarrow> 40),
      allowManualDeselection =
        (case opt_allowManualDeselection opts of Some b \<Rightarrow> b | None \<Rightarrow> True),
      selected = None, selectionPoints = [], midPoints = []\<rparr>"

subsection \<open>Hit testing (spec sections 4.A and 4.E.1)\<close>

text \<open>Modelled from the spec: the distance of two points in pixel space.\<close>

definition pixelDistance :: "real \<times> real \<Rightarrow> real \<times> real \<Rightarrow> real" where
  "pixelDistance p q = sqrt ((fst p - fst q)\<^sup>2 + (snd p - snd q)\<^sup>2)"

text \<open>
  Modelled from the spec: \<open>pointToLineDistancePx\<close> of the kernel. All three points
  are projected to pixels first; the distance is the one to the segment.
\<close>

definition pointToLineDistancePx ::
  "(position \<Rightarrow> real \<times> real) \<Rightarrow> position \<Rightarrow> position \<Rightarrow> position \<Rightarrow> real" where
  "pointToLineDistancePx proj p a b =
     (let P = proj p; A = proj a; B = proj b;
          l2 = (fst B - fst A)\<^sup>2 + (snd B - snd A)\<^sup>2
      in if l2 = 0 then pixelDistance P A
         else (let t = max 0 (min 1 (((fst P - fst A) * (fst B - fst A)
                                     + (snd P - snd A) * (snd B - snd A)) / l2))
               in pixelDistance P (fst A + t * (fst B - fst A), snd A + t * (snd B - snd A))))"

text \<open>
  Modelled from the spec: \<open>pointInPolygon\<close> of the kernel. Ray casting; a coordinate
  on the boundary counts as inside.
\<close>

definition onSegment :: "position \<Rightarrow> position \<times> position \<Rightarrow> bool" where
  "onSegment p s =
     (orient (fst s) (snd s) p = 0 \<and>
      min (fst (fst s)) (fst (snd s)) \<le> fst p \<and> fst p \<le> max (fst (fst s)) (fst (snd s)) \<and>
      min (snd (fst s)) (snd (snd s)) \<le> snd p \<and> snd p \<le> max (snd (fst s)) (snd (snd s)))"

definition rayCrosses :: "position \<Rightarrow> position \<times> position \<Rightarrow> bool" where
  "rayCrosses p s =
     ((snd p < snd (fst s)) \<noteq> (snd p < snd (snd s)) \<and>
      fst p < (fst (snd s) - fst (fst s)) * (snd p - snd (fst s))
                / (snd (snd s) - snd (fst s)) + fst (fst s))"

definition pointInPolygon :: "position \<Rightarrow> position list \<Rightarrow> bool" where
  "pointInPolygon p ring =
     (list_ex (onSegment p) (segments ring) \<or>
      odd (length (filter (rayCrosses p) (segments ring))))"

text \<open>
  Modelled from the spec: the hit test of one geometry at the event's lng/lat. A point
  is hit within \<open>pointerDistance\<close> pixels, a line string when one of its segments is
  within \<open>pointerDistance\<close> pixels, a polygon when the cursor is inside its outer ring.
\<close>

definition cursor :: "mouse_event \<Rightarrow> position" where
  "cursor event = (lng event, lat event)"

definition hitsGeometry :: "real \<Rightarrow> config \<Rightarrow> mouse_event \<Rightarrow> geometry \<Rightarrow> bool" where
  "hitsGeometry d cfg event g =
     (case g of
        Point p \<Rightarrow> pixelDistance (project cfg (cursor event)) (project cfg p) \<le> d
      | LineString cs \<Rightarrow>
          list_ex (\<lambda>s. pointToLineDistancePx (project cfg) (cursor event) (fst s) (snd s) \<le> d)
            (segments cs)
      | Polygon ring \<Rightarrow> pointInPolygon (cursor event) ring)"

text \<open>
  Modelled from the spec: selectability. A feature is selectable when the flags have
  an entry with a \<open>feature\<close> block for its mode; overlay features are never
  selectable. \<open>coordinateFlags\<close> is the \<open>coordinates\<close> block of a stored feature.
\<close>

definition modeOf :: "feature \<Rightarrow> string option" where
  "modeOf f = (case properties f ''mode'' of Some (PString md) \<Rightarrow> Some md | _ \<Rightarrow> None)"

definition featureFlags :: "select_mode \<Rightarrow> feature \<Rightarrow> feature_flags option" where
  "featureFlags m f =
     (case modeOf f of
        None \<Rightarrow> None
      | Some md \<Rightarrow>
          (if md = ''selection-point'' \<or> md = ''midpoint'' then None
           else (case flags m md of None \<Rightarrow> None | Some mf \<Rightarrow> flag_feature mf)))"

definition selectable :: "select_mode \<Rightarrow> feature \<Rightarrow> bool" where
  "selectable m f = (featureFlags m f \<noteq> None)"

definition coordinateFlags :: "select_mode \<Rightarrow> config \<Rightarrow> fid \<Rightarrow> coordinate_flags option" where
  "coordinateFlags m cfg i =
     (case map_of (features cfg) i of
        None \<Rightarrow> None
      | Some f \<Rightarrow> (case featureFlags m f of None \<Rightarrow> None | Some ff \<Rightarrow> coordinates ff))"

fun isPoint :: "geometry \<Rightarrow> bool" where
  "isPoint (Point p) = True" | "isPoint _ = False"

fun isLineString :: "geometry \<Rightarrow> bool" where
  "isLineString (LineString cs) = True" | "isLineString _ = False"

fun isPolygon :: "geometry \<Rightarrow> bool" where
  "isPolygon (Polygon ring) = True" | "isPolygon _ = False"

definition hitOfKind ::
  "(geometry \<Rightarrow> bool) \<Rightarrow> select_mode \<Rightarrow> config \<Rightarrow> mouse_event \<Rightarrow> fid option" where
  "hitOfKind kind m cfg event =
     map_option fst
       (find (\<lambda>(i, f). kind (geometry f) \<and> selectable m f \<and>
                       hitsGeometry (pointerDistance m) cfg event (geometry f))
          (features cfg))"

text \<open>
  Modelled from the spec: step 3 of the hit-testing order. Selectable features are
  tested by priority: point, then line, then polygon.
\<close>

definition clickedFeature :: "select_mode \<Rightarrow> config \<Rightarrow> mouse_event \<Rightarrow> fid option" where
  "clickedFeature m cfg event =
     (case hitOfKind isPoint m cfg event of
        Some i \<Rightarrow> Some i
      | None \<Rightarrow>
          (case hitOfKind isLineString m cfg event of
             Some i \<Rightarrow> Some i
           | None \<Rightarrow> hitOfKind isPolygon m cfg event))"

text \<open>
  Modelled from the spec: steps 1 and 2 of the hit-testing order. In Selected, the
  selection points are tested, and with the midpoints flag the midpoints, each within
  \<open>pointerDistance\<close> pixels.
\<close>

definition hitsOverlay :: "select_mode \<Rightarrow> config \<Rightarrow> mouse_event \<Rightarrow> fid \<Rightarrow> bool" where
  "hitsOverlay m cfg event i =
     (case getGeometryCopy cfg i of
        Some (Point p) \<Rightarrow>
          pixelDistance (project cfg (cursor event)) (project cfg p) \<le> pointerDistance m
      | _ \<Rightarrow> False)"

definition clickedSelectionPoint :: "select_mode \<Rightarrow> config \<Rightarrow> mouse_event \<Rightarrow> fid option" where
  "clickedSelectionPoint m cfg event =
     (if selected m = None then None else find (hitsOverlay m cfg event) (selectionPoints m))"

definition midpointsFlag :: "select_mode \<Rightarrow> config \<Rightarrow> bool" where
  "midpointsFlag m cfg =
     (case selected m of
        None \<Rightarrow> False
      | Some i \<Rightarrow> (case coordinateFlags m cfg i of None \<Rightarrow> False | Some cf \<Rightarrow> midpoints cf))"

definition clickedMidPoint :: "select_mode \<Rightarrow> config \<Rightarrow> mouse_event \<Rightarrow> fid option" where
  "clickedMidPoint m cfg event =
     (if midpointsFlag m cfg then find (hitsOverlay m cfg event) (midPoints m) else None)"

text \<open>
  Modelled from the spec: the hit-testing order of a left click. Selection points,
  then midpoints, then features; nothing hit is a miss.
\<close>

datatype hit = HitSelectionPoint fid | HitMidPoint fid | HitFeature fid | Miss

definition hitTest :: "select_mode \<Rightarrow> config \<Rightarrow> mouse_event \<Rightarrow> hit" where
  "hitTest m cfg event =
     (case clickedSelectionPoint m cfg event of
        Some sp \<Rightarrow> HitSelectionPoint sp
      | None \<Rightarrow>
          (case clickedMidPoint m cfg event of
             Some mp \<Rightarrow> HitMidPoint mp
           | None \<Rightarrow>
               (case clickedFeature m cfg event of
                  Some i \<Rightarrow> HitFeature i
                | None \<Rightarrow> Miss)))"

subsection \<open>Overlays, selection and deselection\<close>

text \<open>
  Modelled from the spec: the overlay features. They are points that carry a
  back-reference to the selected feature: a selection point its \<open>index\<close> in the
  parent's coordinates, a midpoint its \<open>segmentIndex\<close>. A closed polygon ring gets one
  selection point per vertex and none for the closing coordinate, and one midpoint per
  edge (scenario 3 of the spec: a closed ring of six coordinates has five selection
  points and five midpoints; the test's "We only create 4"). \<open>mid\<close> is the kernel's
  \<open>midpointGreatCircle\<close>, a parameter like the circle mode's kernel functions.
\<close>

definition selectionPoint :: "fid \<Rightarrow> nat \<times> position \<Rightarrow> feature" where
  "selectionPoint parent kc =
     \<lparr>geometry = Point (snd kc),
      properties = [''mode'' \<mapsto> PString ''selection-point'',
                    ''parentId'' \<mapsto> PId parent, ''index'' \<mapsto> PNumber (fst kc)]\<rparr>"

definition midPoint ::
  "(position \<Rightarrow> position \<Rightarrow> position) \<Rightarrow> fid \<Rightarrow> nat \<times> position \<times> position \<Rightarrow> feature" where
  "midPoint mid parent ks =
     \<lparr>geometry = Point (mid (fst (snd ks)) (snd (snd ks))),
      properties = [''mode'' \<mapsto> PString ''midpoint'',
                    ''parentId'' \<mapsto> PId parent, ''segmentIndex'' \<mapsto> PNumber (fst ks)]\<rparr>"

fun vertices :: "geometry \<Rightarrow> position list" where
  "vertices (Point p) = []"
| "vertices (LineString cs) = cs"
| "vertices (Polygon ring) = butlast ring"

fun edges :: "geometry \<Rightarrow> (position \<times> position) list" where
  "edges (Point p) = []"
| "edges (LineString cs) = segments cs"
| "edges (Polygon ring) = segments ring"

text \<open>
  Modelled from the spec: the overlays of a selection. With a \<open>coordinates\<close> block in
  the flags, one \<open>create\<close> of the selection points and, with the midpoints flag, one
  \<open>create\<close> of the midpoints; overlays are deleted by one \<open>delete\<close> each, and only
  when there are any (the test sees no \<open>onChange\<close> for an empty set).
\<close>

definition createOverlays ::
  "(position \<Rightarrow> position \<Rightarrow> position) \<Rightarrow> select_mode \<Rightarrow> fid \<Rightarrow> config \<Rightarrow>
   error + (fid list \<times> fid list \<times> config)" where
  "createOverlays mid m i cfg =
     (case coordinateFlags m cfg i of
        None \<Rightarrow> Inr ([], [], cfg)
      | Some cf \<Rightarrow>
          (case getGeometryCopy cfg i of
             None \<Rightarrow> Inl UnknownId
           | Some g \<Rightarrow>
               (if isPoint g then Inr ([], [], cfg)
                else andThen (store_create (map (selectionPoint i) (enumerate 0 (vertices g))) cfg)
                  (\<lambda>(sps, c1).
                     if midpoints cf
                     then andThen (store_create (map (midPoint mid i) (enumerate 0 (edges g))) c1)
                            (\<lambda>(mps, c2). Inr (sps, mps, c2))
                     else Inr (sps, [], c1)))))"

definition deleteOverlays :: "fid list \<Rightarrow> config \<Rightarrow> error + config" where
  "deleteOverlays ids cfg = (if ids = [] then Inr cfg else store_delete ids cfg)"

text \<open>
  Modelled from the spec: deselection. It clears \<open>selected\<close> on the feature, deletes
  the selection points, then the midpoints, and emits \<open>onDeselect\<close>. In Idle it is a
  no-op.
\<close>

definition deselect :: "select_mode \<Rightarrow> error + select_mode" where
  "deselect m =
     (case selected m of
        None \<Rightarrow> Inr m
      | Some old \<Rightarrow>
          (case config m of
             None \<Rightarrow> Inl NotRegistered
           | Some cfg \<Rightarrow>
               andThen (store_updateProperty [(old, ''selected'', PBool False)] cfg) (\<lambda>c1.
               andThen (deleteOverlays (selectionPoints m) c1) (\<lambda>c2.
               andThen (deleteOverlays (midPoints m) c2) (\<lambda>c3.
                 Inr (m\<lparr>config := Some (emit (OnDeselect old) c3),
                        selected := None, selectionPoints := [], midPoints := []\<rparr>))))))"

text \<open>
  Modelled from the spec: selection. It sets the cursor (the test reads one
  \<open>setCursor("move")\<close> after a selecting click), sets \<open>selected\<close> on the feature,
  creates the overlays the flags ask for, and emits \<open>onSelect\<close>.
\<close>

definition select ::
  "(position \<Rightarrow> position \<Rightarrow> position) \<Rightarrow> fid \<Rightarrow> select_mode \<Rightarrow> error + select_mode" where
  "select mid i m =
     (case config m of
        None \<Rightarrow> Inl NotRegistered
      | Some cfg \<Rightarrow>
          andThen (store_updateProperty [(i, ''selected'', PBool True)] (emit (SetCursor ''move'') cfg))
            (\<lambda>c1.
          andThen (createOverlays mid m i c1) (\<lambda>(sps, mps, c2).
            Inr (m\<lparr>config := Some (emit (OnSelect i) c2),
                   selected := Some i, selectionPoints := sps, midPoints := mps\<rparr>))))"

subsection \<open>Left click (spec section 4.E.1)\<close>

text \<open>
  Modelled from the spec: the insertion of a vertex into a ring, and the reading of a
  number property (\<open>index\<close>, \<open>segmentIndex\<close>) of a stored overlay.
\<close>

fun insertVertex :: "nat \<Rightarrow> position \<Rightarrow> geometry \<Rightarrow> geometry" where
  "insertVertex k p (Point q) = Point q"
| "insertVertex k p (LineString cs) = LineString (take k cs @ [p] @ drop k cs)"
| "insertVertex k p (Polygon ring) = Polygon (take k ring @ [p] @ drop k ring)"

definition numberProperty :: "config \<Rightarrow> fid \<Rightarrow> string \<Rightarrow> nat option" where
  "numberProperty cfg i k =
     (case getPropertiesCopy cfg i of
        None \<Rightarrow> None
      | Some ps \<Rightarrow> (case ps k of Some (PNumber n) \<Rightarrow> Some n | _ \<Rightarrow> None))"

text \<open>
  Modelled from the spec: a hit midpoint becomes a vertex of the parent at
  \<open>segmentIndex + 1\<close>; the overlays are rebuilt and the feature stays selected.
\<close>

definition insertMidPoint ::
  "(position \<Rightarrow> position \<Rightarrow> position) \<Rightarrow> fid \<Rightarrow> select_mode \<Rightarrow> error + select_mode" where
  "insertMidPoint mid mp m =
     (case (config m, selected m) of
        (Some cfg, Some parent) \<Rightarrow>
          (case (getGeometryCopy cfg mp, numberProperty cfg mp ''segmentIndex'',
                 getGeometryCopy cfg parent) of
             (Some (Point p), Some k, Some g) \<Rightarrow>
               andThen (store_updateGeometry [(parent, insertVertex (k + 1) p g)] cfg) (\<lambda>c1.
               andThen (deleteOverlays (selectionPoints m) c1) (\<lambda>c2.
               andThen (deleteOverlays (midPoints m) c2) (\<lambda>c3.
               andThen (createOverlays mid m parent c3) (\<lambda>(sps, mps, c4).
                 Inr (m\<lparr>config := Some c4, selectionPoints := sps, midPoints := mps\<rparr>)))))
           | _ \<Rightarrow> Inl UnknownId)
      | _ \<Rightarrow> Inr m)"

text \<open>
  Modelled from the spec: the left click. A hit selection point changes nothing; a hit
  midpoint is inserted; a hit on the selected feature is a no-op; a hit on another
  selectable feature deselects the current one and selects the new one; a miss
  deselects when \<open>allowManualDeselection\<close> is true. A handler of a mode that is not
  registered fails with \<open>NotRegistered\<close>.
\<close>

definition onLeftClick ::
  "(position \<Rightarrow> position \<Rightarrow> position) \<Rightarrow> mouse_event \<Rightarrow> select_mode \<Rightarrow> error + select_mode" where
  "onLeftClick mid event m =
     (case config m of
        None \<Rightarrow> Inl NotRegistered
      | Some cfg \<Rightarrow>
          (case hitTest m cfg event of
             HitSelectionPoint sp \<Rightarrow> Inr m
           | HitMidPoint mp \<Rightarrow> insertMidPoint mid mp m
           | HitFeature i \<Rightarrow>
               (if selected m = Some i then Inr m
                else andThen (deselect m) (select mid i))
           | Miss \<Rightarrow> (if allowManualDeselection m then deselect m else Inr m)))"

subsection \<open>Right click (spec section 4.E.2)\<close>

text \<open>
  Modelled from the spec: the deletion of a vertex from a ring. Deleting the first
  vertex of a closed polygon ring also replaces the closing coordinate.
\<close>

fun deleteVertex :: "nat \<Rightarrow> geometry \<Rightarrow> geometry" where
  "deleteVertex k (Point q) = Point q"
| "deleteVertex k (LineString cs) = LineString (take k cs @ drop (k + 1) cs)"
| "deleteVertex k (Polygon ring) =
     (if k = 0
      then (case tl (butlast ring) of [] \<Rightarrow> Polygon [] | v # vs \<Rightarrow> Polygon (v # vs @ [v]))
      else Polygon (take k ring @ drop (k + 1) ring))"

fun coordinatesOf :: "geometry \<Rightarrow> position list" where
  "coordinatesOf (Point p) = [p]"
| "coordinatesOf (LineString cs) = cs"
| "coordinatesOf (Polygon ring) = ring"

definition deletableFlag :: "select_mode \<Rightarrow> config \<Rightarrow> fid \<Rightarrow> bool" where
  "deletableFlag m cfg i =
     (case coordinateFlags m cfg i of None \<Rightarrow> False | Some cf \<Rightarrow> deletable cf)"

text \<open>
  Modelled from the spec: the right click. On a selection point of the selected
  feature, with \<open>coordinates.deletable\<close>, it deletes that vertex when the resulting
  geometry is still valid, and is aborted silently otherwise. Anything else is a no-op.
\<close>

definition onRightClick ::
  "(position \<Rightarrow> position \<Rightarrow> position) \<Rightarrow> mouse_event \<Rightarrow> select_mode \<Rightarrow> error + select_mode" where
  "onRightClick mid event m =
     (case (config m, selected m) of
        (Some cfg, Some parent) \<Rightarrow>
          (case clickedSelectionPoint m cfg event of
             None \<Rightarrow> Inr m
           | Some sp \<Rightarrow>
               (if \<not> deletableFlag m cfg parent then Inr m
                else (case (numberProperty cfg sp ''index'', getGeometryCopy cfg parent) of
                        (Some k, Some g) \<Rightarrow>
                          (let g' = deleteVertex k g
                           in if \<not> validGeometry g' then Inr m
                              else
                                andThen (deleteOverlays (selectionPoints m) cfg) (\<lambda>c1.
                                andThen (deleteOverlays (midPoints m) c1) (\<lambda>c2.
                                  if coordinatesOf g' = []
                                  then andThen (store_delete [parent] c2) (\<lambda>c3.
                                         Inr (m\<lparr>config := Some c3, selected := None,
                                                selectionPoints := [], midPoints := []\<rparr>))
                                  else
                                    andThen (store_updateGeometry [(parent, g')] c2) (\<lambda>c3.
                                    andThen (createOverlays mid m parent c3) (\<lambda>(sps, mps, c4).
                                      Inr (m\<lparr>config := Some c4, selectionPoints := sps,
                                             midPoints := mps\<rparr>))))))
                      | _ \<Rightarrow> Inl UnknownId)))
      | (None, _) \<Rightarrow> Inl NotRegistered
      | (Some cfg, None) \<Rightarrow> Inr m)"

text \<open>Modelled from the spec: \<open>onClick\<close> of the select mode, by the event's button.\<close>

definition select_onClick ::
  "(position \<Rightarrow> position \<Rightarrow> position) \<Rightarrow> mouse_event \<Rightarrow> select_mode \<Rightarrow> error + select_mode" where
  "select_onClick mid event m =
     (case button event of
        LeftButton \<Rightarrow> onLeftClick mid event m
      | RightButton \<Rightarrow> onRightClick mid event m
      | MiddleButton \<Rightarrow> (case config m of None \<Rightarrow> Inl NotRegistered | Some cfg \<Rightarrow> Inr m))"

subsection \<open>Consistency of the selection with the store\<close>



section \<open>Fixtures of the examples\<close>

text \<open>
  The closed examples below run the handlers on the tests' inputs. They need concrete
  values where the theorems have parameters: a projection (100 px per degree), and
  simple stand-ins for the kernel's circle, distance and midpoint. The theorems
  themselves hold for every projection and every kernel function.
\<close>

definition mockProject :: "position \<Rightarrow> real \<times> real" where
  "mockProject p = (100 * fst p, 100 * snd p)"

definition mockConfig :: config where
  "mockConfig = \<lparr>features = [], nextId = 0, calls = [], project = mockProject\<rparr>"

definition diamond :: "position \<Rightarrow> real \<Rightarrow> geometry" where
  "diamond c r =
     Polygon [(fst c + r, snd c), (fst c, snd c + r), (fst c - r, snd c),
              (fst c, snd c - r), (fst c + r, snd c)]"

definition taxicab :: "position \<Rightarrow> position \<Rightarrow> real" where
  "taxicab a b = \<bar>fst a - fst b\<bar> + \<bar>snd a - snd b\<bar>"

definition flatMid :: "position \<Rightarrow> position \<Rightarrow> position" where
  "flatMid a b = ((fst a + fst b) / 2, (snd a + snd b) / 2)"

definition MockCursorEvent :: "real \<Rightarrow> real \<Rightarrow> button \<Rightarrow> mouse_event" where
  "MockCursorEvent x y b =
     \<lparr>lng = x, lat = y, containerX = x, containerY = y, button = b, heldKeys = []\<rparr>"

definition polygonFeature :: "position list \<Rightarrow> feature" where
  "polygonFeature ring =
     \<lparr>geometry = Polygon ring, properties = [''mode'' \<mapsto> PString ''polygon'']\<rparr>"

definition square :: "position list" where
  "square = [(0, 0), (0, 1), (1, 1), (1, 0), (0, 0)]"

definition squareTwo :: "position list" where
  "squareTwo = [(2, 2), (2, 3), (3, 3), (3, 2), (2, 2)]"

definition callsOf :: "'a mode_base_scheme \<Rightarrow> callback list" where
  "callsOf m = (case config m of None \<Rightarrow> [] | Some cfg \<Rightarrow> calls cfg)"

definition featuresOf :: "'a mode_base_scheme \<Rightarrow> (fid \<times> feature) list" where
  "featuresOf m = (case config m of None \<Rightarrow> [] | Some cfg \<Rightarrow> copyAll cfg)"

definition draftExists :: "circle_mode \<Rightarrow> bool" where
  "draftExists m =
     (case (config m, currentCircleId m) of (Some cfg, Some i) \<Rightarrow> has cfg i | _ \<Rightarrow> False)"

definition noOptions :: select_options where
  "noOptions =
     \<lparr>opt_flags = None, opt_pointerDistance = None, opt_allowManualDeselection = None\<rparr>"

text \<open>The mode of the tests' \<open>beforeEach\<close>: constructed, then registered with the mock.\<close>

definition registeredCircle :: circle_mode where
  "registeredCircle = (new_circle_mode None)\<lparr>state := Registered, config := Some mockConfig\<rparr>"

definition origin :: mouse_event where
  "origin = MockCursorEvent 0 0 LeftButton"

text \<open>The circle mode after the first click at the origin, and the store it then holds.\<close>

definition draftedConfig :: config where
  "draftedConfig =
     \<lparr>features = [(0, \<lparr>geometry = diamond (0, 0) (1 / 100000),
                         properties = [''mode'' \<mapsto> PString ''circle'']\<rparr>)],
      nextId = 1, calls = [OnChange [0] Create], project = mockProject\<rparr>"

definition draftedCircle :: circle_mode where
  "draftedCircle =
     registeredCircle\<lparr>config := Some draftedConfig, center := Some (0, 0),
                      currentCircleId := Some 0, clickCount := 1\<rparr>"

definition cursorAtOneOne :: mouse_event where
  "cursorAtOneOne = MockCursorEvent 1 1 LeftButton"

text \<open>
  The select mode of the test "switch selected, with selection points flag": polygons
  are selectable and have coordinate flags; the store holds the two squares; the first
  square has been selected by a click at (0.5, 0.5).
\<close>

definition testFlags :: "string \<rightharpoonup> mode_flags" where
  "testFlags =
     [''polygon'' \<mapsto>
        \<lparr>flag_feature = Some \<lparr>draggable = False,
           coordinates = Some \<lparr>coordinates_draggable = False, deletable = False,
                                midpoints = False, resizable = None, rotatable = False\<rparr>\<rparr>\<rparr>]"

definition twoSquares :: config where
  "twoSquares =
     \<lparr>features = [(0, polygonFeature square), (1, polygonFeature squareTwo)],
      nextId = 2, calls = [OnChange [0] Create, OnChange [1] Create],
      project = mockProject\<rparr>"

definition selectTest :: select_mode where
  "selectTest =
     (new_select_mode (noOptions\<lparr>opt_flags := Some testFlags\<rparr>))
       \<lparr>state := Registered, config := Some twoSquares\<rparr>"

definition firstSelectedConfig :: config where
  "firstSelectedConfig =
     \<lparr>features =
        [(0, withProperty ''selected'' (PBool True) (polygonFeature square)),
         (1, polygonFeature squareTwo),
         (2, selectionPoint 0 (0, (0, 0))), (3, selectionPoint 0 (1, (0, 1))),
         (4, selectionPoint 0 (2, (1, 1))), (5, selectionPoint 0 (3, (1, 0)))],
      nextId = 6,
      calls = [OnChange [0] Create, OnChange [1] Create, SetCursor ''move'',
               OnChange [0] Update, OnChange [2, 3, 4, 5] Create, OnSelect 0],
      project = mockProject\<rparr>"

definition firstSelected :: select_mode where
  "firstSelected =
     selectTest\<lparr>config := Some firstSelectedConfig, selected := Some 0,
                 selectionPoints := [2, 3, 4, 5], midPoints := []\<rparr>"

definition insideFirst :: mouse_event where
  "insideFirst = MockCursorEvent (1 / 2) (1 / 2) LeftButton"

definition insideSecond :: mouse_event where
  "insideSecond = MockCursorEvent (5 / 2) (5 / 2) LeftButton"

section \<open>Lemmas about the store and the fixtures\<close>

lemma emit_simps [simp]:
  "calls (emit c cfg) = calls cfg @ [c]"
  "features (emit c cfg) = features cfg"
  "nextId (emit c cfg) = nextId cfg"
  "project (emit c cfg) = project cfg"
  by (simp_all add: emit_def)

lemma has_emit [simp]: "has (emit c cfg) i = has cfg i"
  by (simp add: has_def)

lemma store_create_single:
  "validGeometry (geometry f) \<Longrightarrow>
   store_create [f] cfg =
     Inr ([nextId cfg],
          emit (OnChange [nextId cfg] Create)
            (cfg\<lparr>features := features cfg @ [(nextId cfg, f)], nextId := nextId cfg + 1\<rparr>))"
  by (simp add: store_create_def Let_def upt_rec)

lemma valid_diamond: "r \<noteq> 0 \<Longrightarrow> validGeometry (diamond c r)"
  by (simp add: diamond_def selfIntersects_def segments_def strictlyCross_def orient_def
      algebra_simps mult_less_0_iff zero_less_mult_iff)

lemma mockConfig_simps [simp]:
  "features mockConfig = []" "nextId mockConfig = 0" "calls mockConfig = []"
  "project mockConfig = mockProject"
  by (simp_all add: mockConfig_def)

lemma origin_simps [simp]: "lng origin = 0" "lat origin = 0" "button origin = LeftButton"
  by (simp_all add: origin_def MockCursorEvent_def)

lemma registeredCircle_simps [simp]:
  "clickCount registeredCircle = 0" "config registeredCircle = Some mockConfig"
  "state registeredCircle = Registered" "center registeredCircle = None"
  "currentCircleId registeredCircle = None"
  by (simp_all add: registeredCircle_def new_circle_mode_def)

lemma map_fst_setGeometry [simp]: "map fst (setGeometry u fs) = map fst fs"
  by (cases u) (simp add: case_prod_unfold comp_def)


lemma setGeometry_idem: "setGeometry (i, g) (setGeometry (i, g) fs) = setGeometry (i, g) fs"
  by (induction fs) auto



declare setGeometry.simps [simp del]




lemma draftedConfig_simps [simp]:
  "features draftedConfig = [(0, \<lparr>geometry = diamond (0, 0) (1 / 100000),
                         properties = [''mode'' \<mapsto> PString ''circle'']\<rparr>)]"
  "nextId draftedConfig = 1" "calls draftedConfig = [OnChange [0] Create]"
  "project draftedConfig = mockProject"
  by (simp_all add: draftedConfig_def)

lemma draftedCircle_simps [simp]:
  "clickCount draftedCircle = 1" "config draftedCircle = Some draftedConfig"
  "state draftedCircle = Registered" "center draftedCircle = Some (0, 0)"
  "currentCircleId draftedCircle = Some 0"
  by (simp_all add: draftedCircle_def)

lemma cursorAtOneOne_simps [simp]: "lng cursorAtOneOne = 1" "lat cursorAtOneOne = 1"
  by (simp_all add: cursorAtOneOne_def MockCursorEvent_def)

section \<open>Circle mode: clicks\<close>

lemma circle_later_click:
  "clickCount m \<noteq> 0 \<Longrightarrow>
   circle_onClick circ e m = Inr (m\<lparr>center := None, currentCircleId := None, clickCount := 0\<rparr>)"
  by (simp add: circle_onClick_def)

lemma circle_first_click:
  assumes "clickCount m = 0" "config m = Some cfg"
    and "validGeometry (circ (lng e, lat e) (1 / 100000))"
  shows "circle_onClick circ e m =
     Inr (m\<lparr>config := Some (emit (OnChange [nextId cfg] Create)
                (cfg\<lparr>features := features cfg @
                       [(nextId cfg, \<lparr>geometry = circ (lng e, lat e) (1 / 100000),
                                      properties = [''mode'' \<mapsto> PString ''circle'']\<rparr>)],
                     nextId := nextId cfg + 1\<rparr>)),
             center := Some (lng e, lat e),
             currentCircleId := Some (nextId cfg),
             clickCount := 1\<rparr>)"
  using assms by (simp add: circle_onClick_def Let_def store_create_single)

text \<open>
  C1, as the code has it. From Idle, with a registered store and a circle the store
  accepts, the first click creates the draft (one more feature, one \<open>onChange\<close> of kind
  create) and the second click succeeds, leaves the registered configuration as it was
  (the draft stays in the store, the store is not mutated, and no callback at all is
  called: no further create, and no \<open>onFinish\<close>), and puts the mode back to Idle:
  centre and draft id cleared, click count 0.
\<close>

theorem circle_second_click_finalizes:
  assumes "clickCount m = 0" and "config m = Some cfg"
    and "validGeometry (circ (lng e1, lat e1) (1 / 100000))"
  shows "\<exists>m1 m2 cfg1.
     circle_onClick circ e1 m = Inr m1 \<and> circle_onClick circ e2 m1 = Inr m2 \<and>
     config m1 = Some cfg1 \<and>
     copyAll cfg1 = copyAll cfg @
        [(nextId cfg, \<lparr>geometry = circ (lng e1, lat e1) (1 / 100000),
                        properties = [''mode'' \<mapsto> PString ''circle'']\<rparr>)] \<and>
     calls cfg1 = calls cfg @ [OnChange [nextId cfg] Create] \<and>
     config m2 = config m1 \<and> state m2 = state m1 \<and>
     center m2 = None \<and> currentCircleId m2 = None \<and> clickCount m2 = 0"
  using assms
  by (simp add: circle_first_click circle_later_click copyAll_def)

theorem circle_second_click_finalizes_witness:
  "clickCount registeredCircle = 0 \<and> config registeredCircle = Some mockConfig \<and>
   validGeometry (diamond (lng origin, lat origin) (1 / 100000)) \<and>
   (\<exists>m1 m2 cfg1.
     circle_onClick diamond origin registeredCircle = Inr m1 \<and>
     circle_onClick diamond origin m1 = Inr m2 \<and>
     config m1 = Some cfg1 \<and>
     copyAll cfg1 = copyAll mockConfig @
        [(nextId mockConfig, \<lparr>geometry = diamond (lng origin, lat origin) (1 / 100000),
                        properties = [''mode'' \<mapsto> PString ''circle'']\<rparr>)] \<and>
     calls cfg1 = calls mockConfig @ [OnChange [nextId mockConfig] Create] \<and>
     config m2 = config m1 \<and> state m2 = state m1 \<and>
     center m2 = None \<and> currentCircleId m2 = None \<and> clickCount m2 = 0)"
  using circle_second_click_finalizes [of registeredCircle mockConfig diamond origin origin]
  by (simp add: valid_diamond)

text \<open>
  The test's run (register, click, click): the callbacks have received one call, the
  \<open>onChange\<close> of the creation. \<open>onFinish\<close> has not been called.
\<close>

theorem circle_second_click_no_onFinish:
  "map_sum id callsOf
     (andThen (andThen (register mockConfig (new_circle_mode None))
                 (circle_onClick diamond origin))
        (circle_onClick diamond origin))
   = Inr [OnChange [0] Create]"
  by (simp add: andThen_def register_def new_circle_mode_def circle_first_click
      circle_later_click valid_diamond callsOf_def)


section \<open>Circle mode: mouse move\<close>

text \<open>A mouse move leaves the click count, the centre and the draft id as they are.\<close>

lemma circle_mouse_move_keeps_draft:
  assumes "circle_onMouseMove circ hav e m = Inr m'"
  shows "clickCount m' = clickCount m \<and> center m' = center m \<and>
     currentCircleId m' = currentCircleId m \<and> state m' = state m"
  using assms
  by (auto simp: circle_onMouseMove_def Let_def split: if_splits option.splits sum.splits)

text \<open>
  Whatever the kernel's circle and distance are, a second move to the same cursor
  position stores the geometry the first one stored.
\<close>

lemma circle_repeated_move:
  assumes "circle_onMouseMove circ hav e m = Inr m1"
    and "circle_onMouseMove circ hav e m1 = Inr m2"
  shows "featuresOf m2 = featuresOf m1"
  using assms
  by (auto simp: circle_onMouseMove_def Let_def store_updateGeometry_def featuresOf_def
      copyAll_def setGeometry_idem split: if_splits option.splits sum.splits)




section \<open>Circle mode: cleanUp\<close>

lemma tryDelete_no_draft: "\<not> draftExists m \<Longrightarrow> \<exists>e. tryDelete m = Inl e"
  by (auto simp: draftExists_def tryDelete_def store_delete_def split: option.splits)

lemma tryDelete_undefined_id:
  "config m \<noteq> None \<Longrightarrow> currentCircleId m = None \<Longrightarrow> tryDelete m = Inl UnknownId"
  by (auto simp: tryDelete_def split: option.splits)

lemma tryDelete_state: "tryDelete m = Inr m1 \<Longrightarrow> state m1 = state m"
  by (auto simp: tryDelete_def split: option.splits sum.splits)

text \<open>
  C10. \<open>cleanUp\<close> always returns normally, with centre, draft id and click count
  reset (Idle) and the lifecycle state untouched. When the store holds no draft circle
  the registered configuration is exactly what it was (no store mutation, no callback)
  and the \<open>delete\<close> inside it had failed; on a registered mode with no draft id that
  failure is the store's \<open>UnknownId\<close>.
\<close>

theorem circle_cleanUp_never_throws:
  "\<exists>m'. circle_cleanUp m = Inr m' \<and>
      center m' = None \<and> currentCircleId m' = None \<and> clickCount m' = 0 \<and>
      state m' = state m \<and>
      (\<not> draftExists m \<longrightarrow> config m' = config m \<and> (\<exists>e. tryDelete m = Inl e)) \<and>
      (config m \<noteq> None \<and> currentCircleId m = None \<longrightarrow> tryDelete m = Inl UnknownId)"
proof (cases "tryDelete m")
  case (Inl e)
  then show ?thesis
    using tryDelete_undefined_id [of m] by (simp add: circle_cleanUp_def)
next
  case (Inr m1)
  have d: "draftExists m"
    using Inr tryDelete_no_draft [of m] by auto
  have u: "\<not> (config m \<noteq> None \<and> currentCircleId m = None)"
    using Inr by (auto simp: tryDelete_def split: option.splits)
  show ?thesis
    using Inr d u tryDelete_state [OF Inr] by (simp add: circle_cleanUp_def)
qed

theorem circle_cleanUp_never_throws_witness:
  "\<exists>m'. circle_cleanUp registeredCircle = Inr m' \<and>
      center m' = None \<and> currentCircleId m' = None \<and> clickCount m' = 0 \<and>
      state m' = state registeredCircle \<and> \<not> draftExists registeredCircle \<and>
      config m' = config registeredCircle \<and>
      config registeredCircle \<noteq> None \<and> currentCircleId registeredCircle = None \<and>
      tryDelete registeredCircle = Inl UnknownId"
proof -
  have "\<not> draftExists registeredCircle" "config registeredCircle \<noteq> None"
    "currentCircleId registeredCircle = None"
    by (simp_all add: draftExists_def)
  with circle_cleanUp_never_throws [of registeredCircle] show ?thesis
    by blast
qed

section \<open>Sequencing and the guards of the mode base\<close>

lemma setStarted_unregistered: "state m = Unregistered \<Longrightarrow> setStarted m = Inl NotRegistered"
  by (simp add: setStarted_def)

lemma setStopped_unregistered: "state m = Unregistered \<Longrightarrow> setStopped m = Inl NotRegistered"
  by (simp add: setStopped_def)

lemma andThen_simps [simp]: "andThen (Inl e) f = Inl e" "andThen (Inr x) f = f x"
  by (simp_all add: andThen_def)

lemma deselect_idle: "selected m = None \<Longrightarrow> deselect m = Inr m"
  by (simp add: deselect_def)

section \<open>Calls before register\<close>

text \<open>
  \<open>start()\<close> and \<open>stop()\<close> of the modes are \<open>setStarted()\<close> and \<open>setStopped()\<close>
  followed by the rest of the method.
\<close>

lemma circle_start_andThen: "circle_start m = andThen (setStarted m) (setCursor ''crosshair'')"
  by (simp add: circle_start_def andThen_def)

lemma circle_stop_andThen:
  "circle_stop m = andThen (setStopped m) (\<lambda>m1. andThen (setCursor ''unset'' m1) circle_cleanUp)"
  by (simp add: circle_stop_def andThen_def)

lemma point_start_andThen: "point_start m = andThen (setStarted m) (setCursor ''crosshair'')"
  by (simp add: point_start_def andThen_def)

lemma point_stop_andThen:
  "point_stop m = andThen (setStopped m) (\<lambda>m1. andThen (setCursor ''unset'' m1) point_cleanUp)"
  by (simp add: point_stop_def andThen_def)

text \<open>
  C5, as the code has it. For every mode \<open>b\<close> built on the mode base that has not
  been registered, \<open>setStarted()\<close> and \<open>setStopped()\<close> fail with \<open>NotRegistered\<close>,
  so \<open>start()\<close> and \<open>stop()\<close> fail with \<open>NotRegistered\<close> whatever the rest of the
  method is; \<open>start()\<close> and \<open>stop()\<close> of the circle and point modes are such methods.
  The point mode's \<open>onClick\<close> fails with \<open>NotRegistered\<close> too ("Mode must be
  registered first"). The handlers that do not use the store do not fail: \<open>onMouseMove\<close>,
  \<open>onDragStart\<close>, \<open>onDrag\<close> and \<open>onDragEnd\<close> of the circle and point modes and
  \<open>onKeyDown\<close>, \<open>onKeyUp\<close> and \<open>cleanUp\<close> of the point mode return the mode as it
  is, and \<open>cleanUp\<close> and \<open>onKeyPress\<close> of the circle mode return normally. A call that
  fails leaves nothing behind, and a call that returns leaves the mode without a store:
  nothing was touched.
\<close>

theorem unregistered_mode_calls:
  assumes "state b = Unregistered"
    and "state c = Unregistered" "config c = None" "clickCount c = 0"
    and "state p = Unregistered" "config p = None"
  shows "andThen (setStarted b) rest = Inl NotRegistered \<and>
     andThen (setStopped b) rest = Inl NotRegistered \<and>
     circle_start c = Inl NotRegistered \<and> circle_stop c = Inl NotRegistered \<and>
     point_start p = Inl NotRegistered \<and> point_stop p = Inl NotRegistered \<and>
     point_onClick e p = Inl NotRegistered \<and>
     circle_onMouseMove circ hav e c = Inr c \<and>
     circle_onDragStart c = Inr c \<and> circle_onDrag c = Inr c \<and> circle_onDragEnd c = Inr c \<and>
     point_onMouseMove p = Inr p \<and>
     point_onDragStart p = Inr p \<and> point_onDrag p = Inr p \<and> point_onDragEnd p = Inr p \<and>
     point_onKeyDown p = Inr p \<and> point_onKeyUp p = Inr p \<and> point_cleanUp p = Inr p \<and>
     (\<exists>c'. circle_cleanUp c = Inr c' \<and> config c' = None) \<and>
     (\<exists>c'. circle_onKeyPress k c = Inr c' \<and> config c' = None)"
  using assms
  by (simp add: circle_start_andThen circle_stop_andThen point_start_andThen point_stop_andThen
      setStarted_unregistered setStopped_unregistered point_onClick_def
      circle_onMouseMove_def circle_onDragStart_def circle_onDrag_def circle_onDragEnd_def
      point_onMouseMove_def point_onDragStart_def point_onDrag_def point_onDragEnd_def
      point_onKeyDown_def point_onKeyUp_def point_cleanUp_def
      circle_cleanUp_def circle_onKeyPress_def tryDelete_def)

theorem unregistered_mode_calls_witness:
  "state \<lparr>state = Unregistered, config = None\<rparr> = Unregistered \<and>
   state (new_circle_mode None) = Unregistered \<and> config (new_circle_mode None) = None \<and>
   clickCount (new_circle_mode None) = 0 \<and>
   state (new_point_mode None) = Unregistered \<and> config (new_point_mode None) = None \<and>
   andThen (setStarted \<lparr>state = Unregistered, config = None\<rparr>) (setCursor ''crosshair'')
     = Inl NotRegistered \<and>
   andThen (setStopped \<lparr>state = Unregistered, config = None\<rparr>) (setCursor ''crosshair'')
     = Inl NotRegistered \<and>
   circle_start (new_circle_mode None) = Inl NotRegistered \<and>
   circle_stop (new_circle_mode None) = Inl NotRegistered \<and>
   point_start (new_point_mode None) = Inl NotRegistered \<and>
   point_stop (new_point_mode None) = Inl NotRegistered \<and>
   point_onClick origin (new_point_mode None) = Inl NotRegistered \<and>
   circle_onMouseMove diamond taxicab origin (new_circle_mode None) = Inr (new_circle_mode None) \<and>
   circle_onDragStart (new_circle_mode None) = Inr (new_circle_mode None) \<and>
   circle_onDrag (new_circle_mode None) = Inr (new_circle_mode None) \<and>
   circle_onDragEnd (new_circle_mode None) = Inr (new_circle_mode None) \<and>
   point_onMouseMove (new_point_mode None) = Inr (new_point_mode None) \<and>
   point_onDragStart (new_point_mode None) = Inr (new_point_mode None) \<and>
   point_onDrag (new_point_mode None) = Inr (new_point_mode None) \<and>
   point_onDragEnd (new_point_mode None) = Inr (new_point_mode None) \<and>
   point_onKeyDown (new_point_mode None) = Inr (new_point_mode None) \<and>
   point_onKeyUp (new_point_mode None) = Inr (new_point_mode None) \<and>
   point_cleanUp (new_point_mode None) = Inr (new_point_mode None) \<and>
   (\<exists>c'. circle_cleanUp (new_circle_mode None) = Inr c' \<and> config c' = None) \<and>
   (\<exists>c'. circle_onKeyPress ''Escape'' (new_circle_mode None) = Inr c' \<and> config c' = None)"
proof -
  have h: "state \<lparr>state = Unregistered, config = None\<rparr> = Unregistered"
    "state (new_circle_mode None) = Unregistered" "config (new_circle_mode None) = None"
    "clickCount (new_circle_mode None) = 0"
    "state (new_point_mode None) = Unregistered" "config (new_point_mode None) = None"
    by (simp_all add: new_circle_mode_def new_point_mode_def)
  from unregistered_mode_calls
         [OF h, of "setCursor ''crosshair''" origin diamond taxicab "''Escape''"] h
  show ?thesis by blast
qed

text \<open>
  The tests' "onDrag does nothing" and the mouse moves, on modes that were only
  constructed: the handlers return normally.
\<close>

theorem unregistered_circle_onDrag_returns:
  "circle_onDrag (new_circle_mode None) = Inr (new_circle_mode None) \<and>
   state (new_circle_mode None) = Unregistered \<and>
   circle_onMouseMove diamond taxicab origin (new_circle_mode None) = Inr (new_circle_mode None) \<and>
   point_onMouseMove (new_point_mode None) = Inr (new_point_mode None) \<and>
   state (new_point_mode None) = Unregistered"
  by (simp add: circle_onDrag_def circle_onMouseMove_def point_onMouseMove_def
      new_circle_mode_def new_point_mode_def)

section \<open>Select mode: store operations of a selection\<close>

lemma map_fst_setProperty [simp]: "map fst (setProperty u fs) = map fst fs"
  by (cases u) (simp add: case_prod_unfold comp_def)

lemma map_of_setProperty:
  "map_of (setProperty (i, k, v) fs) j =
     (if j = i then map_option (withProperty k v) (map_of fs j) else map_of fs j)"
  by (induction fs) auto

declare setProperty.simps [simp del]

lemma store_updateProperty_single:
  "has cfg i \<Longrightarrow>
   store_updateProperty [(i, k, v)] cfg =
     Inr (emit (OnChange [i] Update) (cfg\<lparr>features := setProperty (i, k, v) (features cfg)\<rparr>))"
  by (simp add: store_updateProperty_def)













lemma store_create_points:
  "list_all (\<lambda>e. isPoint (geometry e)) entries \<Longrightarrow>
   store_create entries cfg =
     Inr ([nextId cfg ..< nextId cfg + length entries],
          emit (OnChange [nextId cfg ..< nextId cfg + length entries] Create)
            (cfg\<lparr>features := features cfg @ zip [nextId cfg ..< nextId cfg + length entries] entries,
                 nextId := nextId cfg + length entries\<rparr>))"
proof -
  assume "list_all (\<lambda>e. isPoint (geometry e)) entries"
  then have "list_all (\<lambda>e. validGeometry (geometry e)) entries"
    by (induction entries) (auto elim: isPoint.elims)
  then show ?thesis
    by (simp add: store_create_def Let_def)
qed

lemma selectionPoints_are_points:
  "list_all (\<lambda>e. isPoint (geometry e)) (map (selectionPoint i) xs)"
  by (simp add: list_all_iff selectionPoint_def)



lemma modeOf_withProperty [simp]:
  "k \<noteq> ''mode'' \<Longrightarrow> modeOf (withProperty k v f) = modeOf f"
  by (simp add: modeOf_def withProperty_def)

lemma featureFlags_withProperty [simp]:
  "k \<noteq> ''mode'' \<Longrightarrow> featureFlags m (withProperty k v f) = featureFlags m f"
  by (simp add: featureFlags_def)

lemma geometry_withProperty [simp]: "geometry (withProperty k v f) = geometry f"
  by (simp add: withProperty_def)





section \<open>Select mode: switching the selection\<close>









subsection \<open>The test's run\<close>

lemma pixelDistance_le_iff:
  "0 \<le> d \<Longrightarrow> pixelDistance p q \<le> d \<longleftrightarrow> (fst p - fst q)\<^sup>2 + (snd p - snd q)\<^sup>2 \<le> d\<^sup>2"
  unfolding pixelDistance_def
  by (metis real_sqrt_le_iff real_sqrt_abs abs_of_nonneg)

lemma selectTest_simps [simp]:
  "config selectTest = Some twoSquares" "state selectTest = Registered"
  "selected selectTest = None" "selectionPoints selectTest = []" "midPoints selectTest = []"
  "pointerDistance selectTest = 40" "allowManualDeselection selectTest = True"
  "flags selectTest = testFlags"
  by (simp_all add: selectTest_def new_select_mode_def noOptions_def)

lemma firstSelected_simps [simp]:
  "config firstSelected = Some firstSelectedConfig" "state firstSelected = Registered"
  "selected firstSelected = Some 0" "selectionPoints firstSelected = [2, 3, 4, 5]"
  "midPoints firstSelected = []"
  "pointerDistance firstSelected = 40" "allowManualDeselection firstSelected = True"
  "flags firstSelected = testFlags"
  by (simp_all add: firstSelected_def)

lemma twoSquares_simps [simp]:
  "features twoSquares = [(0, polygonFeature square), (1, polygonFeature squareTwo)]"
  "nextId twoSquares = 2" "calls twoSquares = [OnChange [0] Create, OnChange [1] Create]"
  "project twoSquares = mockProject"
  by (simp_all add: twoSquares_def)

lemma firstSelectedConfig_simps [simp]:
  "features firstSelectedConfig =
        [(0, withProperty ''selected'' (PBool True) (polygonFeature square)),
         (1, polygonFeature squareTwo),
         (2, selectionPoint 0 (0, (0, 0))), (3, selectionPoint 0 (1, (0, 1))),
         (4, selectionPoint 0 (2, (1, 1))), (5, selectionPoint 0 (3, (1, 0)))]"
  "nextId firstSelectedConfig = 6"
  "calls firstSelectedConfig = [OnChange [0] Create, OnChange [1] Create, SetCursor ''move'',
               OnChange [0] Update, OnChange [2, 3, 4, 5] Create, OnSelect 0]"
  "project firstSelectedConfig = mockProject"
  by (simp_all add: firstSelectedConfig_def)

lemma fixture_features [simp]:
  "geometry (polygonFeature ring) = Polygon ring"
  "modeOf (polygonFeature ring) = Some ''polygon''"
  "geometry (selectionPoint p kc) = Point (snd kc)"
  "modeOf (selectionPoint p kc) = Some ''selection-point''"
  "properties (selectionPoint p kc) ''parentId'' = Some (PId p)"
  "geometry (midPoint mid p ks) = Point (mid (fst (snd ks)) (snd (snd ks)))"
  "modeOf (midPoint mid p ks) = Some ''midpoint''"
  "properties (midPoint mid p ks) ''parentId'' = Some (PId p)"
  by (simp_all add: polygonFeature_def selectionPoint_def midPoint_def modeOf_def)

lemma inside_simps [simp]:
  "cursor insideFirst = (1 / 2, 1 / 2)" "cursor insideSecond = (5 / 2, 5 / 2)"
  "button insideFirst = LeftButton" "button insideSecond = LeftButton"
  by (simp_all add: insideFirst_def insideSecond_def cursor_def MockCursorEvent_def)

lemma in_square: "pointInPolygon (1 / 2, 1 / 2) square"
  by (simp add: pointInPolygon_def square_def segments_def onSegment_def rayCrosses_def orient_def)

lemma in_squareTwo: "pointInPolygon (5 / 2, 5 / 2) squareTwo"
  by (simp add: pointInPolygon_def squareTwo_def segments_def onSegment_def rayCrosses_def orient_def)

lemma not_in_square: "\<not> pointInPolygon (5 / 2, 5 / 2) square"
  by (simp add: pointInPolygon_def square_def segments_def onSegment_def rayCrosses_def orient_def)

lemma hit_second: "hitTest firstSelected firstSelectedConfig insideSecond = HitFeature 1"
  by (simp add: hitTest_def clickedSelectionPoint_def clickedMidPoint_def midpointsFlag_def
      coordinateFlags_def clickedFeature_def hitOfKind_def hitsOverlay_def getGeometryCopy_def
      hitsGeometry_def selectable_def featureFlags_def testFlags_def pixelDistance_le_iff
      mockProject_def in_squareTwo not_in_square)

lemma hit_first: "hitTest selectTest twoSquares insideFirst = HitFeature 0"
  by (simp add: hitTest_def clickedSelectionPoint_def clickedMidPoint_def midpointsFlag_def
      clickedFeature_def hitOfKind_def hitsGeometry_def selectable_def featureFlags_def
      testFlags_def in_square)

lemma polygon_flags:
  "flags m = testFlags \<Longrightarrow>
   featureFlags m (polygonFeature ring) =
     Some \<lparr>draggable = False,
           coordinates = Some \<lparr>coordinates_draggable = False, deletable = False,
                                midpoints = False, resizable = None, rotatable = False\<rparr>\<rparr>"
  by (simp add: featureFlags_def testFlags_def)

lemma first_select: "select_onClick flatMid insideFirst selectTest = Inr firstSelected"
proof -
  have "select_onClick flatMid insideFirst selectTest
          = andThen (deselect selectTest) (select flatMid 0)"
    by (simp add: select_onClick_def onLeftClick_def hit_first)
  also have "\<dots> = select flatMid 0 selectTest"
    by (simp add: deselect_idle)
  also have "\<dots> = Inr firstSelected"
    by (simp add: select_def store_updateProperty_single has_def createOverlays_def
        coordinateFlags_def map_of_setProperty getGeometryCopy_def polygon_flags
        store_create_points selectionPoints_are_points square_def enumerate_eq_zip upt_rec
        firstSelected_def firstSelectedConfig_def emit_def setProperty.simps twoSquares_def
        eval_nat_numeral)
  finally show ?thesis .
qed







subsection \<open>The order of the callbacks\<close>



text \<open>The test's run, evaluated.\<close>

lemma second_select:
  "select_onClick flatMid insideSecond firstSelected =
     Inr (firstSelected
       \<lparr>config := Some
          \<lparr>features =
             [(0, withProperty ''selected'' (PBool False)
                    (withProperty ''selected'' (PBool True) (polygonFeature square))),
              (1, withProperty ''selected'' (PBool True) (polygonFeature squareTwo)),
              (6, selectionPoint 1 (0, (2, 2))), (7, selectionPoint 1 (1, (2, 3))),
              (8, selectionPoint 1 (2, (3, 3))), (9, selectionPoint 1 (3, (3, 2)))],
           nextId = 10,
           calls = [OnChange [0] Create, OnChange [1] Create, SetCursor ''move'',
               OnChange [0] Update, OnChange [2, 3, 4, 5] Create, OnSelect 0,
               OnChange [0] Update, OnChange [2, 3, 4, 5] Delete, OnDeselect 0,
               SetCursor ''move'', OnChange [1] Update, OnChange [6, 7, 8, 9] Create,
               OnSelect 1],
           project = mockProject\<rparr>,
        selected := Some 1, selectionPoints := [6, 7, 8, 9], midPoints := []\<rparr>)"
proof -
  have "select_onClick flatMid insideSecond firstSelected
          = andThen (deselect firstSelected) (select flatMid 1)"
    by (simp add: select_onClick_def onLeftClick_def hit_second)
  also have "\<dots> = Inr (firstSelected
       \<lparr>config := Some
          \<lparr>features =
             [(0, withProperty ''selected'' (PBool False)
                    (withProperty ''selected'' (PBool True) (polygonFeature square))),
              (1, withProperty ''selected'' (PBool True) (polygonFeature squareTwo)),
              (6, selectionPoint 1 (0, (2, 2))), (7, selectionPoint 1 (1, (2, 3))),
              (8, selectionPoint 1 (2, (3, 3))), (9, selectionPoint 1 (3, (3, 2)))],
           nextId = 10,
           calls = [OnChange [0] Create, OnChange [1] Create, SetCursor ''move'',
               OnChange [0] Update, OnChange [2, 3, 4, 5] Create, OnSelect 0,
               OnChange [0] Update, OnChange [2, 3, 4, 5] Delete, OnDeselect 0,
               SetCursor ''move'', OnChange [1] Update, OnChange [6, 7, 8, 9] Create,
               OnSelect 1],
           project = mockProject\<rparr>,
        selected := Some 1, selectionPoints := [6, 7, 8, 9], midPoints := []\<rparr>)"
    by (simp add: deselect_def deleteOverlays_def store_delete_def
        select_def store_updateProperty_single has_def createOverlays_def
        coordinateFlags_def map_of_setProperty getGeometryCopy_def polygon_flags
        store_create_points selectionPoints_are_points squareTwo_def enumerate_eq_zip upt_rec
        firstSelected_def firstSelectedConfig_def emit_def setProperty.simps
        eval_nat_numeral)
  finally show ?thesis .
qed

end
